theory Spec2Isabelle
  imports Main
begin

section \<open>Python values and exceptions\<close>

text \<open>
  The values that \<^verbatim>\<open>YAML(typ="safe").load\<close> hands to the program and that the program
  writes as literals: \<^verbatim>\<open>None\<close>, booleans, integers, strings, lists and dicts. A dict is
  an association list in insertion order. Floats, timestamps, binary data and sets, which
  the loader can also build, are left out.
  A string is a list of characters; the program never looks inside one except to iterate.
\<close>

datatype pyval =
    PNone
  | PBool bool
  | PInt int
  | PStr string
  | PList "pyval list"
  | PDict "(pyval \<times> pyval) list"

text \<open>
  An exception is a value. \<open>TypeError\<close> and \<open>KeyError\<close> come from the interpreter,
  \<open>SystemExit\<close> from \<^verbatim>\<open>sys.exit\<close>; \<open>Foreign c\<close> is an exception of class \<open>c\<close> raised inside
  a library the program calls (the YAML loader, \<^verbatim>\<open>open\<close>, \<^verbatim>\<open>requests\<close>).
\<close>

datatype py_exception =
    TypeError
  | KeyError string
  | SystemExit int
  | Foreign string

fun class_name :: "py_exception \<Rightarrow> string" where
  "class_name TypeError = ''TypeError''"
| "class_name (KeyError k) = ''KeyError''"
| "class_name (SystemExit n) = ''SystemExit''"
| "class_name (Foreign c) = c"

text \<open>
  \<^verbatim>\<open>for x in v\<close>: a list yields its elements, a dict its keys, a string its characters
  as one-character strings; \<^verbatim>\<open>None\<close>, booleans and integers are not iterable.
\<close>

fun py_iter :: "pyval \<Rightarrow> py_exception + pyval list" where
  "py_iter (PList xs) = Inr xs"
| "py_iter (PDict kvs) = Inr (map fst kvs)"
| "py_iter (PStr s) = Inr (map (\<lambda>c. PStr [c]) s)"
| "py_iter PNone = Inl TypeError"
| "py_iter (PBool b) = Inl TypeError"
| "py_iter (PInt i) = Inl TypeError"

text \<open>
  \<^verbatim>\<open>v[key]\<close> for a string \<open>key\<close>: a dict looks the key up and raises \<^verbatim>\<open>KeyError(key)\<close>
  when it is absent; every other value raises \<^verbatim>\<open>TypeError\<close> (lists and strings want
  integer indices, the rest are not subscriptable).
\<close>

fun py_getitem :: "pyval \<Rightarrow> string \<Rightarrow> py_exception + pyval" where
  "py_getitem (PDict kvs) key =
     (case map_of kvs (PStr key) of
        None \<Rightarrow> Inl (KeyError key)
      | Some v \<Rightarrow> Inr v)"
| "py_getitem PNone key = Inl TypeError"
| "py_getitem (PBool b) key = Inl TypeError"
| "py_getitem (PInt i) key = Inl TypeError"
| "py_getitem (PStr s) key = Inl TypeError"
| "py_getitem (PList xs) key = Inl TypeError"

subsection \<open>Decimal text of an integer\<close>

definition digit_char :: "nat \<Rightarrow> char" where
  "digit_char d = ''0123456789'' ! d"

fun str_nat :: "nat \<Rightarrow> string" where
  "str_nat n = (if n < 10 then [digit_char n] else str_nat (n div 10) @ [digit_char (n mod 10)])"

declare str_nat.simps [simp del]

definition str_int :: "int \<Rightarrow> string" where
  "str_int i = (if i < 0 then ''-'' @ str_nat (nat (- i)) else str_nat (nat i))"

section \<open>The world outside the program\<close>

text \<open>
  What a run does to the outside is a list of events in the order they happen: text
  written to standard output, a PATCH request handed to \<^verbatim>\<open>requests.patch\<close>, a call of
  \<^verbatim>\<open>sleep\<close>.
\<close>

record request =
  req_url :: string
  req_json :: pyval
  req_headers :: "(string \<times> string) list"

datatype event =
    Stdout string
  | Patch request
  | Sleep int

text \<open>
  The library and system calls of the program, as functions it is given:
  \<^item> \<open>yaml_load\<close>: \<^verbatim>\<open>YAML(typ="safe").load\<close>, the parsed value or the exception raised;
  \<^item> \<open>py_repr\<close>: Python's \<^verbatim>\<open>repr\<close> of a list or a dict;
  \<^item> \<open>path_exists\<close>: \<^verbatim>\<open>Path(p).exists()\<close>;
  \<^item> \<open>read_file\<close>: \<^verbatim>\<open>open(p, "r")\<close> followed by \<^verbatim>\<open>read()\<close>;
  \<^item> \<open>http_patch\<close>: the outcome of \<^verbatim>\<open>requests.patch\<close> for a request, given everything
    that happened before it: the status code of the response, or the exception raised
    when no response arrives.
\<close>

record env =
  yaml_load :: "string \<Rightarrow> py_exception + pyval"
  py_repr :: "pyval \<Rightarrow> string"
  path_exists :: "string \<Rightarrow> bool"
  read_file :: "string \<Rightarrow> py_exception + string"
  http_patch :: "event list \<Rightarrow> request \<Rightarrow> py_exception + int"

text \<open>
  \<^verbatim>\<open>format(v, "")\<close>, which an f-string field, \<^verbatim>\<open>str.format\<close> and \<^verbatim>\<open>print\<close> apply to a
  value.
\<close>

fun py_format :: "env \<Rightarrow> pyval \<Rightarrow> string" where
  "py_format E (PStr s) = s"
| "py_format E (PInt i) = str_int i"
| "py_format E (PBool b) = (if b then ''True'' else ''False'')"
| "py_format E PNone = ''None''"
| "py_format E (PList xs) = py_repr E (PList xs)"
| "py_format E (PDict kvs) = py_repr E (PDict kvs)"

definition newline :: string where
  "newline = [CHR 0x0A]"

text \<open>\<^verbatim>\<open>print(text, end=ending)\<close>; the default ending is the newline.\<close>

definition py_print :: "string \<Rightarrow> string \<Rightarrow> event list \<Rightarrow> event list" where
  "py_print text ending tr = tr @ [Stdout (text @ ending)]"

definition sleep :: "int \<Rightarrow> event list \<Rightarrow> event list" where
  "sleep secs tr = tr @ [Sleep secs]"

text \<open>
  \<^verbatim>\<open>requests.patch(url, json=..., headers=...)\<close>: the request is recorded, and the call
  returns the response's \<^verbatim>\<open>status_code\<close> or raises.
\<close>

definition requests_patch ::
  "env \<Rightarrow> string \<Rightarrow> pyval \<Rightarrow> (string \<times> string) list \<Rightarrow> event list \<Rightarrow> (py_exception + int) \<times> event list" where
  "requests_patch E u payload hs tr =
     (let req = \<lparr>req_url = u, req_json = payload, req_headers = hs\<rparr>
      in (http_patch E tr req, tr @ [Patch req]))"

text \<open>
  A \<^verbatim>\<open>for\<close> statement over a list: the body runs on each element in turn, and an
  exception raised by the body ends the loop and propagates.
\<close>

fun for_each ::
  "('a \<Rightarrow> event list \<Rightarrow> (py_exception + unit) \<times> event list) \<Rightarrow> 'a list \<Rightarrow> event list
     \<Rightarrow> (py_exception + unit) \<times> event list" where
  "for_each body [] tr = (Inr (), tr)"
| "for_each body (x # xs) tr =
     (case body x tr of
        (Inl e, tr') \<Rightarrow> (Inl e, tr')
      | (Inr u, tr') \<Rightarrow> for_each body xs tr')"

section \<open>Account\<close>

record Account =
  token :: pyval
  webinar_ids :: pyval

definition headers :: "env \<Rightarrow> Account \<Rightarrow> (string \<times> string) list" where
  "headers E self =
     [(''authorization'', ''Bearer '' @ py_format E (token self)),
      (''content-type'', ''application/json'')]"

text \<open>
  The loop of \<^verbatim>\<open>from_yaml_text\<close>: \<open>accounts\<close> is the list built so far. Both subscripts are
  evaluated, \<^verbatim>\<open>acc["token"]\<close> first, before the account is appended.
\<close>

fun append_accounts :: "pyval list \<Rightarrow> Account list \<Rightarrow> py_exception + Account list" where
  "append_accounts [] accounts = Inr accounts"
| "append_accounts (acc # rest) accounts =
     (case py_getitem acc ''token'' of
        Inl e \<Rightarrow> Inl e
      | Inr t \<Rightarrow>
          (case py_getitem acc ''webinar-ids'' of
             Inl e \<Rightarrow> Inl e
           | Inr w \<Rightarrow> append_accounts rest (accounts @ [\<lparr>token = t, webinar_ids = w\<rparr>])))"

definition from_yaml_text :: "env \<Rightarrow> string \<Rightarrow> py_exception + Account list" where
  "from_yaml_text E content =
     (case yaml_load E content of
        Inl e \<Rightarrow> Inl e
      | Inr res \<Rightarrow>
          (case py_iter res of
             Inl e \<Rightarrow> Inl e
           | Inr accs \<Rightarrow> append_accounts accs []))"

section \<open>Operation functions\<close>

definition ZOOM_API_BASE_URL :: string where
  "ZOOM_API_BASE_URL = ''https://api.zoom.us/v2''"

text \<open>
  The dict literal each operation function binds to \<^verbatim>\<open>payload\<close>, under the name of its
  function.
\<close>

definition registration_questions_payload :: pyval where
  "registration_questions_payload = PDict
     [(PStr ''questions'', PList
        [PDict [(PStr ''field_name'', PStr ''last_name''), (PStr ''required'', PBool True)],
         PDict [(PStr ''field_name'', PStr ''org''), (PStr ''required'', PBool True)],
         PDict [(PStr ''field_name'', PStr ''job_title''), (PStr ''required'', PBool True)]]),
      (PStr ''custom_questions'', PList
        [PDict
          [(PStr ''title'', PStr ''Where do you learn about COTS 2021?''),
           (PStr ''type'', PStr ''multiple''),
           (PStr ''required'', PBool True),
           (PStr ''answers'', PList
             [PStr ''Facebook'', PStr ''Instagram'', PStr ''Twitter'', PStr ''Email'',
              PStr ''Newsletters'', PStr ''Friends'', PStr ''Other''])]])]"

definition email_settings_payload :: pyval where
  "email_settings_payload = PDict
     [(PStr ''settings'', PDict
        [(PStr ''attendees_and_panelists_reminder_email_notification'', PDict
           [(PStr ''enable'', PBool True), (PStr ''type'', PInt 7)])])]"

definition qa_payload :: pyval where
  "qa_payload = PDict
     [(PStr ''settings'', PDict
        [(PStr ''question_and_answer'', PDict
           [(PStr ''enable'', PBool True),
            (PStr ''allow_anonymous_questions'', PBool False),
            (PStr ''answer_questions'', PStr ''all''),
            (PStr ''attendees_can_upvote'', PBool True),
            (PStr ''attendees_can_comment'', PBool True)])])]"


definition update_cots2021_registration_questions ::
  "env \<Rightarrow> Account \<Rightarrow> event list \<Rightarrow> (py_exception + unit) \<times> event list" where
  "update_cots2021_registration_questions E account tr0 =
     (let payload = registration_questions_payload
      in case py_iter (webinar_ids account) of
           Inl e \<Rightarrow> (Inl e, tr0)
         | Inr wids \<Rightarrow>
             for_each (\<lambda>wid tr.
               (let tr1 = py_print (''Updating registration questions for '' @ py_format E wid @ '' ...'') '' '' tr
                in case requests_patch E
                     (ZOOM_API_BASE_URL @ ''/webinars/'' @ py_format E wid @ ''/registrants/questions'')
                     payload (headers E account) tr1 of
                     (Inl e, tr2) \<Rightarrow> (Inl e, tr2)
                   | (Inr status_code, tr2) \<Rightarrow>
                       (Inr (), sleep 5 (py_print (py_format E (PInt status_code)) newline tr2))))
               wids tr0)"

definition update_cots20201_email_settings ::
  "env \<Rightarrow> Account \<Rightarrow> event list \<Rightarrow> (py_exception + unit) \<times> event list" where
  "update_cots20201_email_settings E account tr0 =
     (let payload = email_settings_payload
      in case py_iter (webinar_ids account) of
           Inl e \<Rightarrow> (Inl e, tr0)
         | Inr wids \<Rightarrow>
             for_each (\<lambda>wid tr.
               (let tr1 = py_print (''Update email settings for '' @ py_format E wid @ '' ...'') '' '' tr
                in case requests_patch E
                     (ZOOM_API_BASE_URL @ ''/webinars/'' @ py_format E wid)
                     payload (headers E account) tr1 of
                     (Inl e, tr2) \<Rightarrow> (Inl e, tr2)
                   | (Inr status_code, tr2) \<Rightarrow>
                       (Inr (), sleep 5 (py_print (py_format E (PInt status_code)) newline tr2))))
               wids tr0)"

definition update_qa ::
  "env \<Rightarrow> Account \<Rightarrow> event list \<Rightarrow> (py_exception + unit) \<times> event list" where
  "update_qa E account tr0 =
     (let payload = qa_payload
      in case py_iter (webinar_ids account) of
           Inl e \<Rightarrow> (Inl e, tr0)
         | Inr wids \<Rightarrow>
             for_each (\<lambda>wid tr.
               (let tr1 = py_print (''Update q&a settings for '' @ py_format E wid @ '' ...'') '' '' tr
                in case requests_patch E
                     (ZOOM_API_BASE_URL @ ''/webinars/'' @ py_format E wid)
                     payload (headers E account) tr1 of
                     (Inl e, tr2) \<Rightarrow> (Inl e, tr2)
                   | (Inr status_code, tr2) \<Rightarrow>
                       (Inr (), sleep 5 (py_print (py_format E (PInt status_code)) newline tr2))))
               wids tr0)"


section \<open>The command dispatcher\<close>

text \<open>
  The namespace \<^verbatim>\<open>parse_args\<close> returns: \<^verbatim>\<open>op\<close> is one of the four choices (the parser
  rejects any other word before the program proper starts), \<^verbatim>\<open>config\<close> is the path given
  with \<^verbatim>\<open>--config\<close> or the default \<^verbatim>\<open>./config.yaml\<close>.
\<close>

record args =
  op :: string
  config :: string

text \<open>
  The body of the script after \<^verbatim>\<open>parse_args\<close>. \<^verbatim>\<open>sys.exit(1)\<close> raises \<^verbatim>\<open>SystemExit(1)\<close>;
  the \<^verbatim>\<open>create-poll\<close> branch loops over the accounts with the body \<^verbatim>\<open>pass\<close>.
\<close>

definition main :: "env \<Rightarrow> args \<Rightarrow> (py_exception + unit) \<times> event list" where
  "main E a =
     (let config_path = config a in
      if \<not> path_exists E config_path then
        (Inl (SystemExit 1),
         py_print ''[error] Cannot find a configuration file. We expected it to be at ./config.yaml''
           newline [])
      else
        (case read_file E config_path of
           Inl e \<Rightarrow> (Inl e, [])
         | Inr content \<Rightarrow>
             (case from_yaml_text E content of
                Inl e \<Rightarrow> (Inl e, [])
              | Inr accounts \<Rightarrow>
                  (let tr = py_print (''Found '' @ py_format E (PInt (int (length accounts))) @ '' account(s)'')
                              newline []
                   in if op a = ''update-registration-question'' then
                        for_each (update_cots2021_registration_questions E) accounts
                          (py_print ''Updating registration questions'' newline tr)
                      else if op a = ''update-email-setting'' then
                        for_each (update_cots20201_email_settings E) accounts
                          (py_print ''Updating email setting'' newline tr)
                      else if op a = ''create-poll'' then
                        for_each (\<lambda>acc tr'. (Inr (), tr')) accounts
                          (py_print ''Creating poll'' newline tr)
                      else if op a = ''update-qa-setting'' then
                        for_each (update_qa E) accounts
                          (py_print ''Updating Q&A setting'' newline tr)
                      else (Inr (), tr)))))"

text \<open>
  The exit status of the process: 0 after a normal end, the argument of \<^verbatim>\<open>sys.exit\<close>, and
  1 after any other uncaught exception.
\<close>

fun exit_code :: "py_exception + unit \<Rightarrow> int" where
  "exit_code (Inr u) = 0"
| "exit_code (Inl (SystemExit n)) = n"
| "exit_code (Inl e) = 1"

section \<open>Notions used to state the properties\<close>

text \<open>The requests among the events, in order.\<close>

fun requests_of :: "event list \<Rightarrow> request list" where
  "requests_of [] = []"
| "requests_of (Patch r # tr) = r # requests_of tr"
| "requests_of (e # tr) = requests_of tr"

text \<open>
  The requests issued by a call that started after the events \<open>before\<close> and left the
  events \<open>after\<close>.
\<close>

definition issued :: "event list \<Rightarrow> event list \<Rightarrow> request list" where
  "issued before after = requests_of (drop (length before) after)"

text \<open>
  The shape the four loop bodies share: print the progress line with a blank as ending,
  send the request, and on a response print the status code and sleep five seconds.
  \<open>progress\<close> and \<open>target\<close> give the progress line and the URL for a webinar id.
\<close>

definition patch_round ::
  "env \<Rightarrow> (pyval \<Rightarrow> string) \<Rightarrow> (pyval \<Rightarrow> string) \<Rightarrow> pyval \<Rightarrow> (string \<times> string) list
     \<Rightarrow> pyval \<Rightarrow> event list \<Rightarrow> (py_exception + unit) \<times> event list" where
  "patch_round E progress target payload hs wid tr =
     (let tr1 = py_print (progress wid) '' '' tr
      in case requests_patch E (target wid) payload hs tr1 of
           (Inl e, tr2) \<Rightarrow> (Inl e, tr2)
         | (Inr status_code, tr2) \<Rightarrow>
             (Inr (), sleep 5 (py_print (py_format E (PInt status_code)) newline tr2)))"

text \<open>
  The events of one round of the loop as the specification describes it: the progress
  line, the request, the line with the status code, the pause of five seconds.
\<close>

definition round_events :: "string \<Rightarrow> request \<Rightarrow> int \<Rightarrow> event list" where
  "round_events progress req status_code =
     [Stdout (progress @ '' ''), Patch req, Stdout (str_int status_code @ newline), Sleep 5]"

text \<open>A record of the parsed configuration is a mapping that has the key.\<close>

fun has_field :: "pyval \<Rightarrow> string \<Rightarrow> bool" where
  "has_field (PDict kvs) key = (map_of kvs (PStr key) \<noteq> None)"
| "has_field v key = False"

definition has_fields :: "pyval \<Rightarrow> bool" where
  "has_fields r = (has_field r ''token'' \<and> has_field r ''webinar-ids'')"

fun is_mapping :: "pyval \<Rightarrow> bool" where
  "is_mapping (PDict kvs) = True"
| "is_mapping v = False"

fun is_str :: "pyval \<Rightarrow> bool" where
  "is_str (PStr s) = True"
| "is_str v = False"

text \<open>
  A well-formed account record, as the specification gives the file format: a mapping
  whose \<^verbatim>\<open>token\<close> is a string and whose \<^verbatim>\<open>webinar-ids\<close> is a sequence of strings.
\<close>

fun well_formed_record :: "pyval \<Rightarrow> bool" where
  "well_formed_record (PDict kvs) =
     (case map_of kvs (PStr ''token'') of
        Some (PStr t) \<Rightarrow>
          (case map_of kvs (PStr ''webinar-ids'') of
             Some (PList ws) \<Rightarrow> list_all is_str ws
           | _ \<Rightarrow> False)
      | _ \<Rightarrow> False)"
| "well_formed_record v = False"

subsection \<open>A sample world\<close>

text \<open>
  A configuration text in YAML flow style, the value the loader returns for it, and a world
  to run the program in. The stand-in for the loader knows this text, the empty text
  (YAML null), \<^verbatim>\<open>[]\<close> (no record), \<^verbatim>\<open>[{}]\<close> (one record without fields), \<^verbatim>\<open>[abc]\<close> (one
  record that is a string) and a text whose second record has no \<^verbatim>\<open>webinar-ids\<close>; it
  rejects the rest. The only file is \<^verbatim>\<open>./config.yaml\<close>; the server answers the \<open>n\<close>-th
  request with \<open>status n\<close>.
\<close>

definition sample_config :: string where
  "sample_config = ''[{token: abc, webinar-ids: [w111, w222]}, {token: def, webinar-ids: [w333]}]''"

definition sample_records :: "pyval list" where
  "sample_records =
     [PDict [(PStr ''token'', PStr ''abc''), (PStr ''webinar-ids'', PList [PStr ''w111'', PStr ''w222''])],
      PDict [(PStr ''token'', PStr ''def''), (PStr ''webinar-ids'', PList [PStr ''w333''])]]"

definition sample_load :: "string \<Rightarrow> py_exception + pyval" where
  "sample_load text =
     (if text = sample_config then Inr (PList sample_records)
      else if text = [] then Inr PNone
      else if text = ''[]'' then Inr (PList [])
      else if text = ''[{}]'' then Inr (PList [PDict []])
      else if text = ''[abc]'' then Inr (PList [PStr ''abc''])
      else if text = ''[{token: abc, webinar-ids: [w111]}, {token: def}]'' then
        Inr (PList
          [PDict [(PStr ''token'', PStr ''abc''), (PStr ''webinar-ids'', PList [PStr ''w111''])],
           PDict [(PStr ''token'', PStr ''def'')]])
      else Inl (Foreign ''ParserError''))"

definition sample_status :: "nat \<Rightarrow> int" where
  "sample_status n = (if n = 0 then 404 else 204)"

definition sample_env :: "string \<Rightarrow> (nat \<Rightarrow> int) \<Rightarrow> env" where
  "sample_env file_text status =
     \<lparr>yaml_load = sample_load,
      py_repr = (\<lambda>v. ''[...]''),
      path_exists = (\<lambda>p. p = ''./config.yaml''),
      read_file = (\<lambda>p. if p = ''./config.yaml'' then Inr file_text else Inl (Foreign ''FileNotFoundError'')),
      http_patch = (\<lambda>tr r. Inr (status (length (requests_of tr))))\<rparr>"


section \<open>Properties of the configuration loader\<close>

lemma append_accounts_fields:
  assumes "list_all has_fields recs"
  shows "\<exists>accs. append_accounts recs accounts = Inr (accounts @ accs) \<and>
           length accs = length recs \<and>
           (\<forall>i<length recs.
              py_getitem (recs ! i) ''token'' = Inr (token (accs ! i)) \<and>
              py_getitem (recs ! i) ''webinar-ids'' = Inr (webinar_ids (accs ! i)))"
  using assms
proof (induction recs arbitrary: accounts)
  case Nil
  show ?case by simp
next
  case (Cons r recs)
  from Cons.prems have r: "has_fields r" and rest: "list_all has_fields recs"
    by simp_all
  from r obtain kvs t w where kvs: "r = PDict kvs"
    and t: "map_of kvs (PStr ''token'') = Some t"
    and w: "map_of kvs (PStr ''webinar-ids'') = Some w"
    by (cases r) (auto simp: has_fields_def)
  from Cons.IH [OF rest, of "accounts @ [\<lparr>token = t, webinar_ids = w\<rparr>]"]
  obtain accs where run: "append_accounts recs (accounts @ [\<lparr>token = t, webinar_ids = w\<rparr>]) =
        Inr ((accounts @ [\<lparr>token = t, webinar_ids = w\<rparr>]) @ accs)"
    and len: "length accs = length recs"
    and fields: "\<forall>i<length recs.
              py_getitem (recs ! i) ''token'' = Inr (token (accs ! i)) \<and>
              py_getitem (recs ! i) ''webinar-ids'' = Inr (webinar_ids (accs ! i))"
    by blast
  let ?accs = "\<lparr>token = t, webinar_ids = w\<rparr> # accs"
  have "append_accounts (r # recs) accounts = Inr (accounts @ ?accs)"
    by (simp add: kvs t w run)
  moreover have "length ?accs = length (r # recs)"
    by (simp add: len)
  moreover have "\<forall>i<length (r # recs).
              py_getitem ((r # recs) ! i) ''token'' = Inr (token (?accs ! i)) \<and>
              py_getitem ((r # recs) ! i) ''webinar-ids'' = Inr (webinar_ids (?accs ! i))"
  proof (intro allI impI)
    fix i assume "i < length (r # recs)"
    then show "py_getitem ((r # recs) ! i) ''token'' = Inr (token (?accs ! i)) \<and>
              py_getitem ((r # recs) ! i) ''webinar-ids'' = Inr (webinar_ids (?accs ! i))"
      using fields by (cases i) (simp_all add: kvs t w)
  qed
  ultimately show ?case by blast
qed

text \<open>
  The first record that is not a mapping with both keys ends the loop: with
  \<^verbatim>\<open>TypeError\<close> when it is not a mapping, with \<^verbatim>\<open>KeyError('token')\<close> when it is a mapping
  without \<^verbatim>\<open>token\<close>, and with \<^verbatim>\<open>KeyError('webinar-ids')\<close> when only that key is missing.
\<close>

lemma append_accounts_first_bad:
  assumes "list_all has_fields good" and "\<not> has_fields bad"
  shows "append_accounts (good @ bad # rest) accounts =
           Inl (if \<not> is_mapping bad then TypeError
                else if \<not> has_field bad ''token'' then KeyError ''token''
                else KeyError ''webinar-ids'')"
  using assms(1)
proof (induction good arbitrary: accounts)
  case Nil
  from assms(2) show ?case
    by (cases bad) (auto simp: has_fields_def split: option.splits)
next
  case (Cons r good)
  from Cons.prems have r: "has_fields r" and rest: "list_all has_fields good"
    by simp_all
  from r obtain kvs t w where kvs: "r = PDict kvs"
    and t: "map_of kvs (PStr ''token'') = Some t"
    and w: "map_of kvs (PStr ''webinar-ids'') = Some w"
    by (cases r) (auto simp: has_fields_def)
  show ?case
    using Cons.IH [OF rest, of "accounts @ [\<lparr>token = t, webinar_ids = w\<rparr>]"]
    by (simp add: kvs t w)
qed

text \<open>The loop raises nothing else.\<close>

lemma append_accounts_errors:
  "append_accounts recs accounts = Inl e \<Longrightarrow>
     e = TypeError \<or> e = KeyError ''token'' \<or> e = KeyError ''webinar-ids''"
proof (induction recs arbitrary: accounts)
  case Nil
  then show ?case by simp
next
  case (Cons r recs)
  show ?case
  proof (cases "has_fields r")
    case True
    then obtain kvs t w where kvs: "r = PDict kvs"
      and t: "map_of kvs (PStr ''token'') = Some t"
      and w: "map_of kvs (PStr ''webinar-ids'') = Some w"
      by (cases r) (auto simp: has_fields_def)
    from Cons.prems have "append_accounts recs (accounts @ [\<lparr>token = t, webinar_ids = w\<rparr>]) = Inl e"
      by (simp add: kvs t w)
    then show ?thesis by (rule Cons.IH)
  next
    case False
    from append_accounts_first_bad [of "[]" r recs accounts] False Cons.prems
    show ?thesis
      by (auto split: if_splits)
  qed
qed

lemma well_formed_has_fields: "well_formed_record r \<Longrightarrow> has_fields r"
  by (cases r) (auto simp: has_fields_def split: option.splits pyval.splits)

lemma sample_load_config: "yaml_load (sample_env ftext status) sample_config = Inr (PList sample_records)"
  by (simp add: sample_env_def sample_load_def)

lemma sample_records_well_formed: "list_all well_formed_record sample_records"
  by (simp add: sample_records_def)

text \<open>
  C6. For an account with token \<open>T\<close>, the headers accessor returns the mapping of
  \<^verbatim>\<open>authorization\<close> to \<^verbatim>\<open>Bearer T\<close> and of \<^verbatim>\<open>content-type\<close> to \<^verbatim>\<open>application/json\<close>,
  whatever the webinar ids and whatever the world.
\<close>

theorem headers_bearer:
  "headers E \<lparr>token = PStr T, webinar_ids = ws\<rparr> =
     [(''authorization'', ''Bearer '' @ T), (''content-type'', ''application/json'')]"
  by (simp add: headers_def)

text \<open>
  C10. When the configuration text parses to YAML null, \<^verbatim>\<open>from_yaml_text\<close> raises
  \<^verbatim>\<open>TypeError\<close> (the loop iterates over \<^verbatim>\<open>None\<close>); it does not return the empty list of
  accounts, and a run on a file with such a text ends with that exception before it
  prints anything.
\<close>

theorem from_yaml_text_null:
  assumes "yaml_load E content = Inr PNone"
  shows "from_yaml_text E content = Inl TypeError \<and> from_yaml_text E content \<noteq> Inr [] \<and>
         (path_exists E (config a) \<and> read_file E (config a) = Inr content \<longrightarrow>
            main E a = (Inl TypeError, []) \<and> exit_code (fst (main E a)) = 1)"
  using assms by (simp add: from_yaml_text_def main_def)

theorem from_yaml_text_null_witness:
  "yaml_load (sample_env [] sample_status) [] = Inr PNone \<and>
   path_exists (sample_env [] sample_status) ''./config.yaml'' \<and>
   read_file (sample_env [] sample_status) ''./config.yaml'' = Inr [] \<and>
   from_yaml_text (sample_env [] sample_status) [] = Inl TypeError \<and>
   from_yaml_text (sample_env [] sample_status) [] \<noteq> Inr [] \<and>
   main (sample_env [] sample_status) \<lparr>op = ''update-qa-setting'', config = ''./config.yaml''\<rparr> =
     (Inl TypeError, [])"
proof -
  let ?E = "sample_env [] sample_status"
  let ?a = "\<lparr>op = ''update-qa-setting'', config = ''./config.yaml''\<rparr>"
  have h: "yaml_load ?E [] = Inr PNone"
    by (simp add: sample_env_def sample_load_def sample_config_def)
  have f: "path_exists ?E (config ?a) \<and> read_file ?E (config ?a) = Inr []"
    by (simp add: sample_env_def)
  from from_yaml_text_null [OF h, of ?a] f
  have "from_yaml_text ?E [] = Inl TypeError" and "from_yaml_text ?E [] \<noteq> Inr []"
    and "main ?E ?a = (Inl TypeError, [])"
    by blast+
  with h f show ?thesis by simp
qed

text \<open>
  C5. When the configuration text parses to a sequence of \<open>N\<close> well-formed account
  records, \<^verbatim>\<open>from_yaml_text\<close> returns \<open>N\<close> accounts, and the \<open>i\<close>-th account holds the
  \<^verbatim>\<open>token\<close> and the \<^verbatim>\<open>webinar-ids\<close> of the \<open>i\<close>-th record.
\<close>

theorem from_yaml_text_accounts:
  assumes "yaml_load E content = Inr (PList recs)"
    and "list_all well_formed_record recs"
  shows "\<exists>accounts. from_yaml_text E content = Inr accounts \<and>
           length accounts = length recs \<and>
           (\<forall>i<length recs.
              py_getitem (recs ! i) ''token'' = Inr (token (accounts ! i)) \<and>
              py_getitem (recs ! i) ''webinar-ids'' = Inr (webinar_ids (accounts ! i)))"
proof -
  from assms(2) have "list_all has_fields recs"
    by (induction recs) (simp_all add: well_formed_has_fields)
  from append_accounts_fields [OF this, of "[]"] show ?thesis
    by (simp add: from_yaml_text_def assms(1))
qed

theorem from_yaml_text_accounts_witness:
  "yaml_load (sample_env sample_config sample_status) sample_config = Inr (PList sample_records) \<and>
   list_all well_formed_record sample_records \<and>
   (\<exists>accounts. from_yaml_text (sample_env sample_config sample_status) sample_config = Inr accounts \<and>
      length accounts = length sample_records \<and>
      (\<forall>i<length sample_records.
         py_getitem (sample_records ! i) ''token'' = Inr (token (accounts ! i)) \<and>
         py_getitem (sample_records ! i) ''webinar-ids'' = Inr (webinar_ids (accounts ! i)))) \<and>
   from_yaml_text (sample_env sample_config sample_status) sample_config =
     Inr [\<lparr>token = PStr ''abc'', webinar_ids = PList [PStr ''w111'', PStr ''w222'']\<rparr>,
          \<lparr>token = PStr ''def'', webinar_ids = PList [PStr ''w333'']\<rparr>]"
proof (intro conjI)
  show h1: "yaml_load (sample_env sample_config sample_status) sample_config = Inr (PList sample_records)"
    by (rule sample_load_config)
  show h2: "list_all well_formed_record sample_records"
    by (rule sample_records_well_formed)
  show "\<exists>accounts. from_yaml_text (sample_env sample_config sample_status) sample_config = Inr accounts \<and>
      length accounts = length sample_records \<and>
      (\<forall>i<length sample_records.
         py_getitem (sample_records ! i) ''token'' = Inr (token (accounts ! i)) \<and>
         py_getitem (sample_records ! i) ''webinar-ids'' = Inr (webinar_ids (accounts ! i)))"
    by (rule from_yaml_text_accounts [OF h1 h2])
  show "from_yaml_text (sample_env sample_config sample_status) sample_config =
     Inr [\<lparr>token = PStr ''abc'', webinar_ids = PList [PStr ''w111'', PStr ''w222'']\<rparr>,
          \<lparr>token = PStr ''def'', webinar_ids = PList [PStr ''w333'']\<rparr>]"
    by (simp add: from_yaml_text_def h1 sample_records_def)
qed

lemma sample_loads:
  "yaml_load (sample_env ftext status) ''['' = Inl (Foreign ''ParserError'')"
  "yaml_load (sample_env ftext status) [] = Inr PNone"
  "yaml_load (sample_env ftext status) ''[abc]'' = Inr (PList [PStr ''abc''])"
  "yaml_load (sample_env ftext status) ''[{}]'' = Inr (PList [PDict []])"
  "yaml_load (sample_env ftext status) ''[{token: abc, webinar-ids: [w111]}, {token: def}]'' =
     Inr (PList
       [PDict [(PStr ''token'', PStr ''abc''), (PStr ''webinar-ids'', PList [PStr ''w111''])],
        PDict [(PStr ''token'', PStr ''def'')]])"
  by (simp_all add: sample_env_def sample_load_def sample_config_def)

text \<open>
  C4, as the code has it. \<^verbatim>\<open>from_yaml_text\<close> wraps no failure in a \<^verbatim>\<open>ConfigurationError\<close>.
  When the loader rejects the text, its exception propagates unchanged. When the loader
  returns a value, the only exceptions are \<^verbatim>\<open>TypeError\<close> and \<^verbatim>\<open>KeyError\<close>, never one of
  class \<^verbatim>\<open>ConfigurationError\<close>: \<^verbatim>\<open>TypeError\<close> when the value cannot be iterated (null, a
  boolean, an integer); and, at the first record \<open>bad\<close> that is not a mapping with both
  keys, \<^verbatim>\<open>TypeError\<close> when \<open>bad\<close> is not a mapping, \<^verbatim>\<open>KeyError('token')\<close> when it is a
  mapping without \<^verbatim>\<open>token\<close>, and \<^verbatim>\<open>KeyError('webinar-ids')\<close> when it has \<^verbatim>\<open>token\<close> but not
  \<^verbatim>\<open>webinar-ids\<close>.
\<close>

theorem from_yaml_text_raises:
  "(yaml_load E content = Inl e \<longrightarrow> from_yaml_text E content = Inl e) \<and>
   (yaml_load E content = Inr res \<and> py_iter res = Inl e' \<longrightarrow>
      from_yaml_text E content = Inl TypeError) \<and>
   (yaml_load E content = Inr res \<and> py_iter res = Inr (good @ bad # rest) \<and>
    list_all has_fields good \<and> \<not> has_fields bad \<longrightarrow>
      from_yaml_text E content =
        Inl (if \<not> is_mapping bad then TypeError
             else if \<not> has_field bad ''token'' then KeyError ''token''
             else KeyError ''webinar-ids'')) \<and>
   (yaml_load E content = Inr res \<and> from_yaml_text E content = Inl x \<longrightarrow>
      (x = TypeError \<or> x = KeyError ''token'' \<or> x = KeyError ''webinar-ids'') \<and>
      class_name x \<noteq> ''ConfigurationError'')"
proof (intro conjI impI)
  assume "yaml_load E content = Inl e"
  then show "from_yaml_text E content = Inl e"
    by (simp add: from_yaml_text_def)
next
  assume "yaml_load E content = Inr res \<and> py_iter res = Inl e'"
  then show "from_yaml_text E content = Inl TypeError"
    by (cases res) (simp_all add: from_yaml_text_def)
next
  assume a: "yaml_load E content = Inr res \<and> py_iter res = Inr (good @ bad # rest) \<and>
    list_all has_fields good \<and> \<not> has_fields bad"
  then have run: "from_yaml_text E content = append_accounts (good @ bad # rest) []"
    by (simp add: from_yaml_text_def)
  from a have good: "list_all has_fields good" and bad: "\<not> has_fields bad"
    by simp_all
  show "from_yaml_text E content =
        Inl (if \<not> is_mapping bad then TypeError
             else if \<not> has_field bad ''token'' then KeyError ''token''
             else KeyError ''webinar-ids'')"
    unfolding run by (rule append_accounts_first_bad [OF good bad])
next
  assume "yaml_load E content = Inr res \<and> from_yaml_text E content = Inl x"
  then have a: "yaml_load E content = Inr res" "from_yaml_text E content = Inl x"
    by simp_all
  have x: "x = TypeError \<or> x = KeyError ''token'' \<or> x = KeyError ''webinar-ids''"
  proof (cases "py_iter res")
    case (Inl e0)
    then have "e0 = TypeError"
      by (cases res) simp_all
    with a Inl show ?thesis
      by (simp add: from_yaml_text_def)
  next
    case (Inr recs)
    with a have "append_accounts recs [] = Inl x"
      by (simp add: from_yaml_text_def)
    then show ?thesis by (rule append_accounts_errors)
  qed
  then show "x = TypeError \<or> x = KeyError ''token'' \<or> x = KeyError ''webinar-ids''" .
  from x show "class_name x \<noteq> ''ConfigurationError''"
    by auto
qed

text \<open>
  The cases at the sample loader: a text it rejects, the empty text (null), a record that
  is a string, a mapping without fields, and a second record without \<^verbatim>\<open>webinar-ids\<close>.
\<close>

theorem from_yaml_text_raises_witness:
  "(yaml_load (sample_env [] sample_status) ''['' = Inl (Foreign ''ParserError'') \<and>
    from_yaml_text (sample_env [] sample_status) ''['' = Inl (Foreign ''ParserError'')) \<and>
   (yaml_load (sample_env [] sample_status) [] = Inr PNone \<and> py_iter PNone = Inl TypeError \<and>
    from_yaml_text (sample_env [] sample_status) [] = Inl TypeError) \<and>
   (yaml_load (sample_env [] sample_status) ''[abc]'' = Inr (PList [PStr ''abc'']) \<and>
    \<not> has_fields (PStr ''abc'') \<and> \<not> is_mapping (PStr ''abc'') \<and>
    from_yaml_text (sample_env [] sample_status) ''[abc]'' = Inl TypeError) \<and>
   (yaml_load (sample_env [] sample_status) ''[{}]'' = Inr (PList [PDict []]) \<and>
    \<not> has_fields (PDict []) \<and> is_mapping (PDict []) \<and> \<not> has_field (PDict []) ''token'' \<and>
    from_yaml_text (sample_env [] sample_status) ''[{}]'' = Inl (KeyError ''token'') \<and>
    class_name (KeyError ''token'') \<noteq> ''ConfigurationError'') \<and>
   (yaml_load (sample_env [] sample_status) ''[{token: abc, webinar-ids: [w111]}, {token: def}]'' =
      Inr (PList
        [PDict [(PStr ''token'', PStr ''abc''), (PStr ''webinar-ids'', PList [PStr ''w111''])],
         PDict [(PStr ''token'', PStr ''def'')]]) \<and>
    list_all has_fields
      [PDict [(PStr ''token'', PStr ''abc''), (PStr ''webinar-ids'', PList [PStr ''w111''])]] \<and>
    \<not> has_fields (PDict [(PStr ''token'', PStr ''def'')]) \<and>
    has_field (PDict [(PStr ''token'', PStr ''def'')]) ''token'' \<and>
    from_yaml_text (sample_env [] sample_status)
      ''[{token: abc, webinar-ids: [w111]}, {token: def}]'' = Inl (KeyError ''webinar-ids''))"
proof -
  let ?E = "sample_env [] sample_status"
  let ?r1 = "PDict [(PStr ''token'', PStr ''abc''), (PStr ''webinar-ids'', PList [PStr ''w111''])]"
  let ?r2 = "PDict [(PStr ''token'', PStr ''def'')]"
  have shape: "\<not> has_fields (PStr ''abc'')" "\<not> is_mapping (PStr ''abc'')"
    "\<not> has_fields (PDict [])" "is_mapping (PDict [])" "\<not> has_field (PDict []) ''token''"
    "list_all has_fields [?r1]" "\<not> has_fields ?r2" "has_field ?r2 ''token''" "is_mapping ?r2"
    "list_all has_fields []"
    by (simp_all add: has_fields_def)
  have iter: "py_iter PNone = Inl TypeError"
    "py_iter (PList [PStr ''abc'']) = Inr ([] @ PStr ''abc'' # [])"
    "py_iter (PList [PDict []]) = Inr ([] @ PDict [] # [])"
    "py_iter (PList [?r1, ?r2]) = Inr ([?r1] @ ?r2 # [])"
    by simp_all
  from from_yaml_text_raises [of ?E "''[''" "Foreign ''ParserError''"] sample_loads(1) [of "[]" sample_status]
  have 1: "from_yaml_text ?E ''['' = Inl (Foreign ''ParserError'')"
    by blast
  from from_yaml_text_raises [of ?E "[]" _ PNone TypeError] sample_loads(2) [of "[]" sample_status] iter(1)
  have 2: "from_yaml_text ?E [] = Inl TypeError"
    by blast
  from from_yaml_text_raises [of ?E "''[abc]''" _ "PList [PStr ''abc'']" _ "[]" "PStr ''abc''" "[]"]
    sample_loads(3) [of "[]" sample_status] iter(2) shape
  have 3: "from_yaml_text ?E ''[abc]'' = Inl TypeError"
    by simp
  from from_yaml_text_raises [of ?E "''[{}]''" _ "PList [PDict []]" _ "[]" "PDict []" "[]"]
    sample_loads(4) [of "[]" sample_status] iter(3) shape
  have 4: "from_yaml_text ?E ''[{}]'' = Inl (KeyError ''token'')"
    by simp
  from from_yaml_text_raises [of ?E "''[{}]''" _ "PList [PDict []]" _ _ _ _ "KeyError ''token''"]
    sample_loads(4) [of "[]" sample_status] 4
  have 5: "class_name (KeyError ''token'') \<noteq> ''ConfigurationError''"
    by blast
  from from_yaml_text_raises
    [of ?E "''[{token: abc, webinar-ids: [w111]}, {token: def}]''" _ "PList [?r1, ?r2]" _ "[?r1]" ?r2 "[]"]
    sample_loads(5) [of "[]" sample_status] iter(4) shape
  have 6: "from_yaml_text ?E ''[{token: abc, webinar-ids: [w111]}, {token: def}]'' =
      Inl (KeyError ''webinar-ids'')"
    by simp
  show ?thesis
    using sample_loads [of "[]" sample_status] iter(1) shape 1 2 3 4 5 6
    by (intro conjI) assumption+
qed

text \<open>
  The claim as the specification words it fails on \<^verbatim>\<open>[{}]\<close>: the exception raised is
  \<^verbatim>\<open>KeyError('token')\<close>, whose class is not \<^verbatim>\<open>ConfigurationError\<close>.
\<close>

theorem from_yaml_text_not_configuration_error:
  "from_yaml_text (sample_env [] sample_status) ''[{}]'' = Inl (KeyError ''token'') \<and>
   class_name (KeyError ''token'') \<noteq> ''ConfigurationError''"
  by (simp add: from_yaml_text_def sample_env_def sample_load_def sample_config_def)

text \<open>
  Nothing checks the shape of the parsed value beyond the two subscripts: an empty
  mapping or an empty string gives no accounts, and the fields of a record are taken as
  they are, whatever their type.
\<close>

lemma from_yaml_text_unchecked:
  "yaml_load E content = Inr (PDict []) \<Longrightarrow> from_yaml_text E content = Inr []"
  "yaml_load E content = Inr (PStr []) \<Longrightarrow> from_yaml_text E content = Inr []"
  "yaml_load E content = Inr (PList [PDict [(PStr ''token'', t), (PStr ''webinar-ids'', w)]]) \<Longrightarrow>
     from_yaml_text E content = Inr [\<lparr>token = t, webinar_ids = w\<rparr>]"
  by (simp_all add: from_yaml_text_def)

section \<open>Properties of the operation functions\<close>

lemma requests_of_append: "requests_of (xs @ ys) = requests_of xs @ requests_of ys"
  by (induction xs rule: requests_of.induct) simp_all

lemma issued_append: "issued tr (tr @ new) = requests_of new"
  by (simp add: issued_def)

lemma registration_rounds:
  "update_cots2021_registration_questions E account tr =
     (case py_iter (webinar_ids account) of
        Inl e \<Rightarrow> (Inl e, tr)
      | Inr wids \<Rightarrow>
          for_each (patch_round E
            (\<lambda>wid. ''Updating registration questions for '' @ py_format E wid @ '' ...'')
            (\<lambda>wid. ZOOM_API_BASE_URL @ ''/webinars/'' @ py_format E wid @ ''/registrants/questions'')
            registration_questions_payload (headers E account)) wids tr)"
  unfolding update_cots2021_registration_questions_def patch_round_def Let_def by (rule refl)

lemma email_rounds:
  "update_cots20201_email_settings E account tr =
     (case py_iter (webinar_ids account) of
        Inl e \<Rightarrow> (Inl e, tr)
      | Inr wids \<Rightarrow>
          for_each (patch_round E
            (\<lambda>wid. ''Update email settings for '' @ py_format E wid @ '' ...'')
            (\<lambda>wid. ZOOM_API_BASE_URL @ ''/webinars/'' @ py_format E wid)
            email_settings_payload (headers E account)) wids tr)"
  unfolding update_cots20201_email_settings_def patch_round_def Let_def by (rule refl)

lemma qa_rounds:
  "update_qa E account tr =
     (case py_iter (webinar_ids account) of
        Inl e \<Rightarrow> (Inl e, tr)
      | Inr wids \<Rightarrow>
          for_each (patch_round E
            (\<lambda>wid. ''Update q&a settings for '' @ py_format E wid @ '' ...'')
            (\<lambda>wid. ZOOM_API_BASE_URL @ ''/webinars/'' @ py_format E wid)
            qa_payload (headers E account)) wids tr)"
  unfolding update_qa_def patch_round_def Let_def by (rule refl)

lemma patch_round_response:
  assumes "http_patch E (tr @ [Stdout (progress wid @ '' '')])
             \<lparr>req_url = target wid, req_json = payload, req_headers = hs\<rparr> = Inr c"
  shows "patch_round E progress target payload hs wid tr =
     (Inr (), tr @ round_events (progress wid)
        \<lparr>req_url = target wid, req_json = payload, req_headers = hs\<rparr> c)"
  using assms
  by (simp add: patch_round_def py_print_def requests_patch_def sleep_def round_events_def)

lemma patch_round_raises:
  assumes "http_patch E (tr @ [Stdout (progress wid @ '' '')])
             \<lparr>req_url = target wid, req_json = payload, req_headers = hs\<rparr> = Inl e"
  shows "patch_round E progress target payload hs wid tr =
     (Inl e, tr @ [Stdout (progress wid @ '' ''),
        Patch \<lparr>req_url = target wid, req_json = payload, req_headers = hs\<rparr>])"
  using assms by (simp add: patch_round_def py_print_def requests_patch_def sleep_def)









lemma rounds_requests_prefix:
  "\<exists>new m. snd (for_each (patch_round E progress target payload hs) wids tr) = tr @ new \<and>
      m \<le> length wids \<and>
      requests_of new =
        take m (map (\<lambda>wid. \<lparr>req_url = target wid, req_json = payload, req_headers = hs\<rparr>) wids)"
proof (induction wids arbitrary: tr)
  case Nil
  show ?case by simp
next
  case (Cons wid wids)
  let ?req = "\<lparr>req_url = target wid, req_json = payload, req_headers = hs\<rparr>"
  let ?reqs = "map (\<lambda>wid. \<lparr>req_url = target wid, req_json = payload, req_headers = hs\<rparr>)"
  show ?case
  proof (cases "http_patch E (tr @ [Stdout (progress wid @ '' '')]) ?req")
    case (Inl e)
    have "patch_round E progress target payload hs wid tr =
        (Inl e, tr @ [Stdout (progress wid @ '' ''), Patch ?req])"
      using Inl by (rule patch_round_raises)
    then have "snd (for_each (patch_round E progress target payload hs) (wid # wids) tr) =
        tr @ [Stdout (progress wid @ '' ''), Patch ?req]"
      by simp
    moreover have "requests_of [Stdout (progress wid @ '' ''), Patch ?req] = take 1 (?reqs (wid # wids))"
      by simp
    moreover have "1 \<le> length (wid # wids)"
      by simp
    ultimately show ?thesis by blast
  next
    case (Inr c)
    from Cons.IH [of "tr @ round_events (progress wid) ?req c"]
    obtain new m where new: "snd (for_each (patch_round E progress target payload hs) wids
        (tr @ round_events (progress wid) ?req c)) = (tr @ round_events (progress wid) ?req c) @ new"
      and m: "m \<le> length wids"
      and reqs: "requests_of new = take m (?reqs wids)"
      by blast
    have step: "patch_round E progress target payload hs wid tr =
        (Inr (), tr @ round_events (progress wid) ?req c)"
      using Inr by (rule patch_round_response)
    have "snd (for_each (patch_round E progress target payload hs) (wid # wids) tr) =
            tr @ (round_events (progress wid) ?req c @ new)"
      by (simp add: step new)
    moreover have "requests_of (round_events (progress wid) ?req c @ new) =
        take (Suc m) (?reqs (wid # wids))"
      by (simp add: requests_of_append round_events_def reqs)
    moreover have "Suc m \<le> length (wid # wids)"
      using m by simp
    ultimately show ?thesis by blast
  qed
qed

text \<open>
  Without any assumption on the server: the requests of a call are an initial part of the
  one-per-id list, cut after the first request that raises.
\<close>

lemma issued_is_initial_part:
  assumes "webinar_ids account = PList wids"
  shows "\<exists>m\<le>length wids.
           issued tr (snd (update_cots2021_registration_questions E account tr)) =
             take m (map (\<lambda>wid. \<lparr>req_url = ZOOM_API_BASE_URL @ ''/webinars/'' @ py_format E wid @ ''/registrants/questions'',
                          req_json = registration_questions_payload,
                          req_headers = headers E account\<rparr>) wids)"
    and "\<exists>m\<le>length wids.
           issued tr (snd (update_cots20201_email_settings E account tr)) =
             take m (map (\<lambda>wid. \<lparr>req_url = ZOOM_API_BASE_URL @ ''/webinars/'' @ py_format E wid,
                          req_json = email_settings_payload,
                          req_headers = headers E account\<rparr>) wids)"
    and "\<exists>m\<le>length wids.
           issued tr (snd (update_qa E account tr)) =
             take m (map (\<lambda>wid. \<lparr>req_url = ZOOM_API_BASE_URL @ ''/webinars/'' @ py_format E wid,
                          req_json = qa_payload,
                          req_headers = headers E account\<rparr>) wids)"
proof -
  show "\<exists>m\<le>length wids.
           issued tr (snd (update_cots2021_registration_questions E account tr)) =
             take m (map (\<lambda>wid. \<lparr>req_url = ZOOM_API_BASE_URL @ ''/webinars/'' @ py_format E wid @ ''/registrants/questions'',
                          req_json = registration_questions_payload,
                          req_headers = headers E account\<rparr>) wids)"
    using rounds_requests_prefix [of E
        "\<lambda>wid. ''Updating registration questions for '' @ py_format E wid @ '' ...''"
        "\<lambda>wid. ZOOM_API_BASE_URL @ ''/webinars/'' @ py_format E wid @ ''/registrants/questions''"
        registration_questions_payload "headers E account" wids tr]
    by (auto simp: registration_rounds assms issued_append)
  show "\<exists>m\<le>length wids.
           issued tr (snd (update_cots20201_email_settings E account tr)) =
             take m (map (\<lambda>wid. \<lparr>req_url = ZOOM_API_BASE_URL @ ''/webinars/'' @ py_format E wid,
                          req_json = email_settings_payload,
                          req_headers = headers E account\<rparr>) wids)"
    using rounds_requests_prefix [of E
        "\<lambda>wid. ''Update email settings for '' @ py_format E wid @ '' ...''"
        "\<lambda>wid. ZOOM_API_BASE_URL @ ''/webinars/'' @ py_format E wid"
        email_settings_payload "headers E account" wids tr]
    by (auto simp: email_rounds assms issued_append)
  show "\<exists>m\<le>length wids.
           issued tr (snd (update_qa E account tr)) =
             take m (map (\<lambda>wid. \<lparr>req_url = ZOOM_API_BASE_URL @ ''/webinars/'' @ py_format E wid,
                          req_json = qa_payload,
                          req_headers = headers E account\<rparr>) wids)"
    using rounds_requests_prefix [of E
        "\<lambda>wid. ''Update q&a settings for '' @ py_format E wid @ '' ...''"
        "\<lambda>wid. ZOOM_API_BASE_URL @ ''/webinars/'' @ py_format E wid"
        qa_payload "headers E account" wids tr]
    by (auto simp: qa_rounds assms issued_append)
qed











section \<open>Properties of the command dispatcher\<close>

lemma for_each_pass: "for_each (\<lambda>acc tr'. (Inr (), tr')) accounts tr = (Inr (), tr)"
  by (induction accounts) simp_all

lemma main_config_missing:
  assumes "\<not> path_exists E (config a)"
  shows "main E a =
     (Inl (SystemExit 1),
      [Stdout (''[error] Cannot find a configuration file. We expected it to be at ./config.yaml'' @ newline)])"
  using assms by (simp add: main_def py_print_def)

text \<open>
  C7. When the configuration path does not exist, the run prints one line that starts
  with \<^verbatim>\<open>[error]\<close>, ends by \<^verbatim>\<open>sys.exit(1)\<close>, so the process exits with code 1, and
  issues no request.
\<close>

theorem missing_config_exits:
  assumes "\<not> path_exists E (config a)"
  shows "fst (main E a) = Inl (SystemExit 1) \<and> exit_code (fst (main E a)) = 1 \<and>
         requests_of (snd (main E a)) = [] \<and>
         (\<exists>message. snd (main E a) = [Stdout message] \<and> take 7 message = ''[error]'')"
  by (simp add: main_config_missing [OF assms])

theorem missing_config_exits_witness:
  "\<not> path_exists (sample_env sample_config sample_status) ''./other.yaml'' \<and>
   fst (main (sample_env sample_config sample_status) \<lparr>op = ''update-qa-setting'', config = ''./other.yaml''\<rparr>)
     = Inl (SystemExit 1) \<and>
   exit_code (fst (main (sample_env sample_config sample_status)
     \<lparr>op = ''update-qa-setting'', config = ''./other.yaml''\<rparr>)) = 1 \<and>
   requests_of (snd (main (sample_env sample_config sample_status)
     \<lparr>op = ''update-qa-setting'', config = ''./other.yaml''\<rparr>)) = []"
proof -
  have h: "\<not> path_exists (sample_env sample_config sample_status)
      (config \<lparr>op = ''update-qa-setting'', config = ''./other.yaml''\<rparr>)"
    by (simp add: sample_env_def)
  from missing_config_exits [OF h] h show ?thesis by simp
qed

text \<open>
  C9. The line printed for a missing configuration file is the same fixed text, naming
  \<^verbatim>\<open>./config.yaml\<close>, whatever path and operation were given: two runs that both miss their
  file print the same.
\<close>

theorem missing_config_message:
  assumes "\<not> path_exists E (config a)" and "\<not> path_exists E' (config a')"
  shows "snd (main E a) =
           [Stdout (''[error] Cannot find a configuration file. We expected it to be at ./config.yaml'' @ newline)] \<and>
         snd (main E a) = snd (main E' a')"
  by (simp add: main_config_missing [OF assms(1)] main_config_missing [OF assms(2)])

theorem missing_config_message_witness:
  "\<not> path_exists (sample_env sample_config sample_status) ''./other.yaml'' \<and>
   \<not> path_exists (sample_env [] sample_status) ''/etc/zoom/accounts.yaml'' \<and>
   snd (main (sample_env sample_config sample_status)
          \<lparr>op = ''update-qa-setting'', config = ''./other.yaml''\<rparr>) =
     [Stdout (''[error] Cannot find a configuration file. We expected it to be at ./config.yaml'' @ newline)] \<and>
   snd (main (sample_env sample_config sample_status)
          \<lparr>op = ''update-qa-setting'', config = ''./other.yaml''\<rparr>) =
   snd (main (sample_env [] sample_status)
          \<lparr>op = ''create-poll'', config = ''/etc/zoom/accounts.yaml''\<rparr>)"
proof -
  have h1: "\<not> path_exists (sample_env sample_config sample_status)
      (config \<lparr>op = ''update-qa-setting'', config = ''./other.yaml''\<rparr>)"
    by (simp add: sample_env_def)
  have h2: "\<not> path_exists (sample_env [] sample_status)
      (config \<lparr>op = ''create-poll'', config = ''/etc/zoom/accounts.yaml''\<rparr>)"
    by (simp add: sample_env_def)
  from h1 have g1: "\<not> path_exists (sample_env sample_config sample_status) ''./other.yaml''"
    by simp
  from h2 have g2: "\<not> path_exists (sample_env [] sample_status) ''/etc/zoom/accounts.yaml''"
    by simp
  from missing_config_message [OF h1 h2] g1 g2 show ?thesis
    by (intro conjI) (erule conjunct1, erule conjunct2 | assumption)+
qed

text \<open>
  C3. With the operation \<^verbatim>\<open>create-poll\<close> no request is issued, whatever the world and the
  configuration; when the configuration loads, the run prints the count of accounts and
  \<^verbatim>\<open>Creating poll\<close>, and ends normally.
\<close>

theorem create_poll_inert:
  assumes "op a = ''create-poll''"
  shows "requests_of (snd (main E a)) = [] \<and>
         (path_exists E (config a) \<and> read_file E (config a) = Inr content \<and>
          from_yaml_text E content = Inr accounts \<longrightarrow>
            main E a = (Inr (),
              [Stdout (''Found '' @ str_int (int (length accounts)) @ '' account(s)'' @ newline),
               Stdout (''Creating poll'' @ newline)]))"
proof (cases "path_exists E (config a)")
  case False
  then show ?thesis
    by (simp add: main_config_missing)
next
  case True
  show ?thesis
  proof (cases "read_file E (config a)")
    case (Inl e)
    with True show ?thesis
      by (simp add: main_def)
  next
    case body: (Inr body)
    show ?thesis
    proof (cases "from_yaml_text E body")
      case (Inl e)
      with True body show ?thesis
        by (auto simp: main_def)
    next
      case (Inr accs)
      with True body assms show ?thesis
        by (auto simp: main_def Let_def py_print_def for_each_pass)
    qed
  qed
qed

theorem create_poll_inert_witness:
  "op \<lparr>op = ''create-poll'', config = ''./config.yaml''\<rparr> = ''create-poll'' \<and>
   path_exists (sample_env sample_config sample_status) ''./config.yaml'' \<and>
   read_file (sample_env sample_config sample_status) ''./config.yaml'' = Inr sample_config \<and>
   from_yaml_text (sample_env sample_config sample_status) sample_config =
     Inr [\<lparr>token = PStr ''abc'', webinar_ids = PList [PStr ''w111'', PStr ''w222'']\<rparr>,
          \<lparr>token = PStr ''def'', webinar_ids = PList [PStr ''w333'']\<rparr>] \<and>
   requests_of (snd (main (sample_env sample_config sample_status)
     \<lparr>op = ''create-poll'', config = ''./config.yaml''\<rparr>)) = [] \<and>
   main (sample_env sample_config sample_status) \<lparr>op = ''create-poll'', config = ''./config.yaml''\<rparr> =
     (Inr (), [Stdout (''Found 2 account(s)'' @ newline), Stdout (''Creating poll'' @ newline)])"
proof -
  let ?E = "sample_env sample_config sample_status"
  let ?a = "\<lparr>op = ''create-poll'', config = ''./config.yaml''\<rparr>"
  let ?accounts = "[\<lparr>token = PStr ''abc'', webinar_ids = PList [PStr ''w111'', PStr ''w222'']\<rparr>,
          \<lparr>token = PStr ''def'', webinar_ids = PList [PStr ''w333'']\<rparr>]"
  have h0: "op ?a = ''create-poll''"
    by simp
  have h1: "path_exists ?E (config ?a)"
    by (simp add: sample_env_def)
  have h2: "read_file ?E (config ?a) = Inr sample_config"
    by (simp add: sample_env_def)
  have h3: "from_yaml_text ?E sample_config = Inr ?accounts"
    by (simp add: from_yaml_text_def sample_load_config sample_records_def)
  have two: "str_int (int (length ?accounts)) = ''2''"
    by (simp add: str_int_def str_nat.simps digit_char_def)
  from create_poll_inert [OF h0, of ?E sample_config ?accounts] h1 h2 h3
  have "requests_of (snd (main ?E ?a)) = []"
    and "main ?E ?a =
      (Inr (), [Stdout (''Found '' @ str_int (int (length ?accounts)) @ '' account(s)'' @ newline),
                Stdout (''Creating poll'' @ newline)])"
    by blast+
  with h0 h1 h2 h3 two show ?thesis
    by simp
qed

text \<open>
  The scenario of the specification: two accounts, the first with two webinar ids and the
  second with one; \<^verbatim>\<open>update-email-setting\<close> issues three requests, in order, each with the
  e-mail payload and the bearer token of its account.
\<close>

lemma scenario_two_accounts:
  "requests_of (snd (main (sample_env sample_config sample_status)
      \<lparr>op = ''update-email-setting'', config = ''./config.yaml''\<rparr>)) =
     [\<lparr>req_url = ''https://api.zoom.us/v2/webinars/w111'', req_json = email_settings_payload,
       req_headers = [(''authorization'', ''Bearer abc''), (''content-type'', ''application/json'')]\<rparr>,
      \<lparr>req_url = ''https://api.zoom.us/v2/webinars/w222'', req_json = email_settings_payload,
       req_headers = [(''authorization'', ''Bearer abc''), (''content-type'', ''application/json'')]\<rparr>,
      \<lparr>req_url = ''https://api.zoom.us/v2/webinars/w333'', req_json = email_settings_payload,
       req_headers = [(''authorization'', ''Bearer def''), (''content-type'', ''application/json'')]\<rparr>]"
proof -
  have accounts: "from_yaml_text (sample_env sample_config sample_status) sample_config =
      Inr [\<lparr>token = PStr ''abc'', webinar_ids = PList [PStr ''w111'', PStr ''w222'']\<rparr>,
           \<lparr>token = PStr ''def'', webinar_ids = PList [PStr ''w333'']\<rparr>]"
    by (simp add: from_yaml_text_def sample_load_config sample_records_def)
  have present: "path_exists (sample_env sample_config sample_status) ''./config.yaml''"
    "read_file (sample_env sample_config sample_status) ''./config.yaml'' = Inr sample_config"
    by (simp_all add: sample_env_def)
  have patch: "\<And>tr r. http_patch (sample_env sample_config sample_status) tr r =
      Inr (sample_status (length (requests_of tr)))"
    by (simp add: sample_env_def)
  show ?thesis
    by (simp add: main_def present accounts Let_def update_cots20201_email_settings_def
        requests_patch_def patch py_print_def sleep_def headers_def requests_of_append
        ZOOM_API_BASE_URL_def)
qed

end
